theory Spec2Isabelle
  imports Main "HOL-Library.Sublist"
begin

section \<open>Python values used by \<open>app.py\<close>\<close>

text \<open>
  A Python \<open>str\<close> is a sequence of Unicode code points and \<open>len\<close> counts code points,
  so a string is a list of code points here. \<open>ascii\<close> reads the ASCII literals of the
  source.
\<close>

type_synonym pystr = "nat list"

definition ascii :: "string \<Rightarrow> pystr" where
  "ascii s = map of_char s"

text \<open>
  The value \<open>request.get_json(force=True)\<close> hands to the handler: a parsed JSON document.
  The payload of a float is never inspected by the handler. A JSON object is a \<open>dict\<close>;
  it is kept as an association list read with \<open>map_of\<close>.
\<close>

datatype pyobj =
    PyNone
  | PyBool bool
  | PyInt int
  | PyFloat
  | PyStr pystr
  | PyList "pyobj list"
  | PyDict "(pystr \<times> pyobj) list"

text \<open>The exceptions that can leave a statement of \<open>run_code\<close>.\<close>

datatype exn =
    AttributeError
  | OSError
  | UnicodeEncodeError
  | UnicodeDecodeError
  | FileNotFoundError pystr

text \<open>\<open>jsonify(d), status\<close>: a JSON object of string fields and the HTTP status.\<close>

record response =
  json :: "(pystr \<times> pystr) list"
  status :: nat

text \<open>\<open>subprocess.CompletedProcess\<close> with \<open>text=True\<close>.\<close>

record completed_process =
  returncode :: int
  stdout :: pystr
  stderr :: pystr

subsection \<open>String operations\<close>

text \<open>\<open>str(n)\<close> for an \<open>int\<close>, as the f-strings of the source format it.\<close>

fun digits :: "nat \<Rightarrow> pystr" where
  "digits n = (if n < 10 then [48 + n] else digits (n div 10) @ [48 + n mod 10])"

declare digits.simps [simp del]

definition str_int :: "int \<Rightarrow> pystr" where
  "str_int i = (if i < 0 then 45 # digits (nat (- i)) else digits (nat i))"

text \<open>
  \<open>str.isspace\<close> of one code point: the code points CPython treats as whitespace,
  which \<open>str.strip()\<close> without arguments removes.
\<close>

definition isspace :: "nat \<Rightarrow> bool" where
  "isspace c \<longleftrightarrow>
     (9 \<le> c \<and> c \<le> 13) \<or> (28 \<le> c \<and> c \<le> 32) \<or> c = 133 \<or> c = 160 \<or> c = 5760 \<or>
     (8192 \<le> c \<and> c \<le> 8202) \<or> c = 8232 \<or> c = 8233 \<or> c = 8239 \<or> c = 8287 \<or> c = 12288"

definition lstrip :: "(nat \<Rightarrow> bool) \<Rightarrow> pystr \<Rightarrow> pystr" where
  "lstrip P s = dropWhile P s"

definition rstrip :: "(nat \<Rightarrow> bool) \<Rightarrow> pystr \<Rightarrow> pystr" where
  "rstrip P s = rev (dropWhile P (rev s))"

text \<open>\<open>s.strip()\<close>\<close>

definition strip :: "pystr \<Rightarrow> pystr" where
  "strip s = rstrip isspace (lstrip isspace s)"

text \<open>\<open>s.rstrip("\n")\<close>: every trailing character that is in the argument goes.\<close>

definition rstrip_newline :: "pystr \<Rightarrow> pystr" where
  "rstrip_newline s = rstrip (\<lambda>c. c \<in> set (ascii ''\<newline>'')) s"

text \<open>\<open>sub in s\<close> for strings: \<open>sub\<close> occurs in \<open>s\<close> as a contiguous run.\<close>

fun py_in :: "pystr \<Rightarrow> pystr \<Rightarrow> bool" where
  "py_in sub [] = (sub = [])"
| "py_in sub (c # cs) = (prefix sub (c # cs) \<or> py_in sub cs)"

text \<open>\<open>os.path.join(a, b)\<close> on POSIX.\<close>

definition path_join :: "pystr \<Rightarrow> pystr \<Rightarrow> pystr" where
  "path_join a b =
     (if prefix (ascii ''/'') b then b
      else if a = [] \<or> suffix (ascii ''/'') a then a @ b
      else a @ ascii ''/'' @ b)"

text \<open>
  Encoding to UTF-8 (\<open>open(..., encoding="utf-8")\<close>) raises on a surrogate code point,
  which a JSON string can carry as an escape.
\<close>

definition utf8_encodable :: "pystr \<Rightarrow> bool" where
  "utf8_encodable s = list_all (\<lambda>c. \<not> (55296 \<le> c \<and> c \<le> 57343)) s"

section \<open>Configuration\<close>

definition MAX_CODE_CHARS :: int where
  "MAX_CODE_CHARS = 5000"

definition TIMEOUT_SECONDS :: int where
  "TIMEOUT_SECONDS = 10"

definition MEMORY_LIMIT :: pystr where
  "MEMORY_LIMIT = ascii ''128m''"

definition PYTHON_RUNNER_IMAGE :: pystr where
  "PYTHON_RUNNER_IMAGE = ascii ''safe-python-runner:latest''"

section \<open>The host: file system, effects, and what the handler cannot decide\<close>

datatype node = Dir | File pystr

datatype effect =
    Makedirs pystr
  | OpenWrite pystr
  | Write pystr pystr
  | SubprocessRun "pystr list"
  | Rmtree pystr

text \<open>
  The state the handler acts on: the file system, and the calls it has made on the host,
  oldest first.
\<close>

record world =
  fs :: "pystr \<Rightarrow> node option"
  trace :: "effect list"

text \<open>
  Everything the handler reads from outside: the fresh identifier, the temporary
  directory, whether a file-system call fails, and what the spawned command does.
  \<open>str_lower\<close> is Python's \<open>str.lower\<close>, whose Unicode case table is not part of the
  repository.
\<close>

record env =
  uuid4 :: pystr
  gettempdir :: pystr
  makedirs_raises :: "exn option"
  open_raises :: "exn option"
  subprocess_run :: "pystr list \<Rightarrow> exn + completed_process"
  rmtree_fails :: bool
  str_lower :: "pystr \<Rightarrow> pystr"

definition log :: "effect \<Rightarrow> world \<Rightarrow> world" where
  "log ev w = w\<lparr>trace := trace w @ [ev]\<rparr>"

text \<open>\<open>os.makedirs(p, exist_ok=True)\<close>\<close>

definition makedirs :: "env \<Rightarrow> pystr \<Rightarrow> world \<Rightarrow> (exn + unit) \<times> world" where
  "makedirs e p w =
     (let w1 = log (Makedirs p) w in
      case makedirs_raises e of
        Some x \<Rightarrow> (Inl x, w1)
      | None \<Rightarrow> (Inr (), w1\<lparr>fs := (fs w1)(p \<mapsto> Dir)\<rparr>))"

text \<open>
  \<open>with open(p, "w", encoding="utf-8") as f: f.write(code)\<close>: opening truncates the
  file, writing encodes the text.
\<close>

definition write_script :: "env \<Rightarrow> pystr \<Rightarrow> pystr \<Rightarrow> world \<Rightarrow> (exn + unit) \<times> world" where
  "write_script e p code w =
     (let w1 = log (OpenWrite p) w in
      case open_raises e of
        Some x \<Rightarrow> (Inl x, w1)
      | None \<Rightarrow>
          (let w2 = log (Write p code) (w1\<lparr>fs := (fs w1)(p \<mapsto> File [])\<rparr>) in
           if utf8_encodable code then (Inr (), w2\<lparr>fs := (fs w2)(p \<mapsto> File code)\<rparr>)
           else (Inl UnicodeEncodeError, w2)))"

text \<open>A path is inside the tree rooted at \<open>d\<close>: \<open>d\<close> itself or a path below it.\<close>

definition in_tree :: "pystr \<Rightarrow> pystr \<Rightarrow> bool" where
  "in_tree d p \<longleftrightarrow>
     p = d \<or> prefix (if suffix (ascii ''/'') d then d else d @ ascii ''/'') p"

text \<open>
  \<open>shutil.rmtree(d, ignore_errors=True)\<close>: never raises. When the removal fails the
  error is swallowed and the tree is still there.
\<close>

definition rmtree :: "env \<Rightarrow> pystr \<Rightarrow> world \<Rightarrow> world" where
  "rmtree e d w =
     (let w1 = log (Rmtree d) w in
      if rmtree_fails e then w1
      else w1\<lparr>fs := (\<lambda>p. if in_tree d p then None else fs w1 p)\<rparr>)"

text \<open>\<open>subprocess.run(cmd, stdout=PIPE, stderr=PIPE, text=True)\<close>\<close>

definition run_subprocess ::
  "env \<Rightarrow> pystr list \<Rightarrow> world \<Rightarrow> (exn + completed_process) \<times> world" where
  "run_subprocess e cmd w = (subprocess_run e cmd, log (SubprocessRun cmd) w)"

section \<open>The handler \<open>run_code\<close>\<close>

text \<open>\<open>body.get("code")\<close>: only a \<open>dict\<close> has \<open>get\<close>; a missing key gives \<open>None\<close>.\<close>

definition body_get :: "pyobj \<Rightarrow> pystr \<Rightarrow> exn + pyobj" where
  "body_get body k =
     (case body of
        PyDict kvs \<Rightarrow> (case map_of kvs k of Some v \<Rightarrow> Inr v | None \<Rightarrow> Inr PyNone)
      | _ \<Rightarrow> Inl AttributeError)"

definition jsonify :: "(pystr \<times> pystr) list \<Rightarrow> nat \<Rightarrow> response" where
  "jsonify d st = \<lparr>json = d, status = st\<rparr>"

definition tempdir_of :: "env \<Rightarrow> pystr" where
  "tempdir_of e = path_join (gettempdir e) (ascii ''safeexec-'' @ uuid4 e)"

definition script_path_of :: "env \<Rightarrow> pystr" where
  "script_path_of e = path_join (tempdir_of e) (ascii ''script.py'')"

definition docker_cmd :: "pystr \<Rightarrow> pystr list" where
  "docker_cmd tempdir =
     [ascii ''docker'', ascii ''run'', ascii ''--rm'',
      ascii ''--network'', ascii ''none'',
      ascii ''--memory'', MEMORY_LIMIT,
      ascii ''--pids-limit'', ascii ''64'',
      ascii ''--read-only'',
      ascii ''--security-opt'', ascii ''no-new-privileges:true'',
      ascii ''--cap-drop=ALL'',
      ascii ''--volume'', tempdir @ ascii '':/app:ro'',
      PYTHON_RUNNER_IMAGE,
      ascii ''python'', ascii ''/app/script.py'']"

definition exec_cmd :: "pystr \<Rightarrow> pystr list" where
  "exec_cmd tempdir =
     [ascii ''timeout'', str_int TIMEOUT_SECONDS @ ascii ''s''] @ docker_cmd tempdir"

text \<open>Lines 87 to 97: what is returned once the command has completed.\<close>

definition classify :: "completed_process \<Rightarrow> response" where
  "classify completed =
     (if returncode completed = 124 then
        jsonify [(ascii ''error'',
                  ascii ''Execution timed out after '' @ str_int TIMEOUT_SECONDS
                    @ ascii '' seconds'')] 400
      else if returncode completed \<noteq> 0 then
        jsonify [(ascii ''output'', strip (stdout completed)),
                 (ascii ''error'',
                  (if strip (stderr completed) \<noteq> [] then strip (stderr completed)
                   else ascii ''container exited with code '' @ str_int (returncode completed)))]
          400
      else jsonify [(ascii ''output'', rstrip_newline (stdout completed))] 200)"

text \<open>Lines 78 to 97: the spawn, the two clean-up calls and the classification.\<close>

definition invoke :: "env \<Rightarrow> pystr \<Rightarrow> world \<Rightarrow> (exn + response) \<times> world" where
  "invoke e tempdir w =
     (case run_subprocess e (exec_cmd tempdir) w of
        (Inl (FileNotFoundError msg), w1) \<Rightarrow>
          (let w2 = rmtree e tempdir w1;
               missing = (if py_in (ascii ''docker'') (str_lower e msg)
                          then ascii ''docker'' else ascii ''timeout'')
           in (Inr (jsonify [(ascii ''error'', ascii ''Required tool not found: '' @ missing)]
                      500), w2))
      | (Inl x, w1) \<Rightarrow> (Inl x, w1)
      | (Inr completed, w1) \<Rightarrow>
          (let w2 = rmtree e tempdir w1 in (Inr (classify completed), w2)))"

text \<open>
  The handler of \<open>POST /run\<close>. An exception no statement catches leaves the handler
  (\<open>Inl\<close>); a returned response is \<open>Inr\<close>.
\<close>

definition run_code :: "env \<Rightarrow> pyobj \<Rightarrow> world \<Rightarrow> (exn + response) \<times> world" where
  "run_code e body w =
     (case body_get body (ascii ''code'') of
        Inl x \<Rightarrow> (Inl x, w)
      | Inr (PyStr code) \<Rightarrow>
          if int (length code) > MAX_CODE_CHARS then
            (Inr (jsonify [(ascii ''error'',
                            ascii ''code too long (max '' @ str_int MAX_CODE_CHARS @ ascii '')'')]
                    400), w)
          else
            (case makedirs e (tempdir_of e) w of
               (Inl x, w1) \<Rightarrow> (Inl x, w1)
             | (Inr _, w1) \<Rightarrow>
                 (case write_script e (script_path_of e) code w1 of
                    (Inl x, w2) \<Rightarrow> (Inl x, w2)
                  | (Inr _, w2) \<Rightarrow> invoke e (tempdir_of e) w2))
      | Inr _ \<Rightarrow>
          (Inr (jsonify [(ascii ''error'', ascii ''code must be a string'')] 400), w))"

section \<open>The specification's reading of the success output\<close>

text \<open>
  The specification describes the success output as the captured stdout with exactly one
  trailing newline stripped. This is that description, for comparison with
  \<open>rstrip_newline\<close>, which is what the handler calls.
\<close>

definition strip_one_newline :: "pystr \<Rightarrow> pystr" where
  "strip_one_newline s = (if suffix (ascii ''\<newline>'') s then butlast s else s)"

section \<open>A concrete host and submission\<close>

text \<open>Lower-casing restricted to the ASCII letters, for the concrete host.\<close>

definition ascii_lower :: "pystr \<Rightarrow> pystr" where
  "ascii_lower s = map (\<lambda>c. if 65 \<le> c \<and> c \<le> 90 then c + 32 else c) s"

text \<open>
  A host on which every file-system call succeeds and the spawned command ends the way
  the argument says.
\<close>

definition sample_host :: "(exn + completed_process) \<Rightarrow> env" where
  "sample_host r =
     \<lparr>uuid4 = ascii ''0b5e2c1a-7d4f-4e0a-9c3b-1f2e3d4c5b6a'',
      gettempdir = ascii ''/tmp'',
      makedirs_raises = None,
      open_raises = None,
      subprocess_run = (\<lambda>cmd. r),
      rmtree_fails = False,
      str_lower = ascii_lower\<rparr>"

definition empty_world :: world where
  "empty_world = \<lparr>fs = (\<lambda>p. None), trace = []\<rparr>"

text \<open>The request body \<open>{"code": c}\<close>.\<close>

definition submission :: "pystr \<Rightarrow> pyobj" where
  "submission c = PyDict [(ascii ''code'', PyStr c)]"

text \<open>
  The completed process the handler receives on a host that has \<open>timeout\<close> but not
  \<open>docker\<close>: the spawn of \<open>timeout\<close> succeeds, and \<open>timeout\<close> reports that it could not
  run its command with status 127 and one line on stderr.
\<close>

definition docker_absent :: completed_process where
  "docker_absent =
     \<lparr>returncode = 127, stdout = [],
      stderr = ascii ''timeout: failed to run command '' @ [39] @ ascii ''docker'' @ [39] @
               ascii '': No such file or directory\<newline>''\<rparr>"

text \<open>
  One character, the lone surrogate U+D800, which a JSON string can spell as an escape.
\<close>

definition surrogate_code :: pystr where
  "surrogate_code = [55296]"

section \<open>Properties of the string operations and of the host calls\<close>

lemma ascii_newline: "ascii ''\<newline>'' = [10]"
  by (simp add: ascii_def)

lemma str_int_TIMEOUT_SECONDS: "str_int TIMEOUT_SECONDS = ascii ''10''"
  by (simp add: str_int_def TIMEOUT_SECONDS_def digits.simps ascii_def)

lemma str_int_MAX_CODE_CHARS: "str_int MAX_CODE_CHARS = ascii ''5000''"
  by (simp add: str_int_def MAX_CODE_CHARS_def digits.simps ascii_def)

lemma rstrip_append: "rstrip P s @ rev (takeWhile P (rev s)) = s"
proof -
  have "rev (takeWhile P (rev s) @ dropWhile P (rev s)) = s" by simp
  then show ?thesis unfolding rstrip_def by (simp only: rev_append)
qed

lemma rstrip_last: "rstrip P s \<noteq> [] \<Longrightarrow> \<not> P (last (rstrip P s))"
  unfolding rstrip_def by (simp add: last_rev hd_dropWhile)

lemma lstrip_append: "takeWhile P s @ lstrip P s = s"
  unfolding lstrip_def by simp

lemma lstrip_hd: "lstrip P s \<noteq> [] \<Longrightarrow> \<not> P (hd (lstrip P s))"
  unfolding lstrip_def by (simp add: hd_dropWhile)

lemma rstrip_hd: "rstrip P s \<noteq> [] \<Longrightarrow> hd (rstrip P s) = hd s"
proof -
  assume ne: "rstrip P s \<noteq> []"
  have "hd (rstrip P s @ rev (takeWhile P (rev s))) = hd (rstrip P s)"
    using ne by simp
  then show ?thesis by (simp add: rstrip_append)
qed

lemma strip_decomposition:
  "\<exists>l r. s = l @ strip s @ r \<and> list_all isspace l \<and> list_all isspace r"
proof -
  let ?l = "takeWhile isspace s"
  let ?r = "rev (takeWhile isspace (rev (lstrip isspace s)))"
  have "s = ?l @ lstrip isspace s" by (simp add: lstrip_append)
  also have "lstrip isspace s = strip s @ ?r"
    unfolding strip_def by (simp add: rstrip_append)
  finally have "s = ?l @ strip s @ ?r" .
  moreover have "list_all isspace ?l" 
    by (simp add: list_all_iff) (meson set_takeWhileD)
  moreover have "list_all isspace ?r" 
    by (simp add: list_all_iff) (meson set_takeWhileD)
  ultimately show ?thesis by blast
qed

lemma strip_ends:
  assumes "strip s \<noteq> []"
  shows "\<not> isspace (hd (strip s)) \<and> \<not> isspace (last (strip s))"
proof -
  have ne: "lstrip isspace s \<noteq> []" using assms unfolding strip_def rstrip_def by auto
  have "hd (strip s) = hd (lstrip isspace s)"
    using assms unfolding strip_def by (rule rstrip_hd)
  then have "\<not> isspace (hd (strip s))" using lstrip_hd [OF ne] by simp
  moreover have "\<not> isspace (last (strip s))"
    using assms unfolding strip_def by (rule rstrip_last)
  ultimately show ?thesis by simp
qed

lemma rstrip_newline_decomposition:
  "\<exists>k. s = rstrip_newline s @ replicate k 10"
proof -
  let ?t = "takeWhile (\<lambda>c. c = 10) (rev s)"
  have "\<forall>x \<in> set (rev ?t). x = 10" by (auto dest: set_takeWhileD)
  then have "rev ?t = replicate (length (rev ?t)) 10"
    by (metis replicate_length_same)
  moreover have "rstrip_newline s @ rev ?t = s"
    unfolding rstrip_newline_def by (simp add: ascii_newline rstrip_append [where P = "\<lambda>c. c = 10"])
  ultimately show ?thesis by metis
qed

lemma rstrip_newline_last:
  "rstrip_newline s \<noteq> [] \<Longrightarrow> last (rstrip_newline s) \<noteq> 10"
  unfolding rstrip_newline_def using rstrip_last [where P = "\<lambda>c. c \<in> set (ascii ''\<newline>'')" and s = s]
  by (simp add: ascii_newline)

lemma tempdir_nonempty: "tempdir_of e \<noteq> []"
  unfolding tempdir_of_def path_join_def by (auto simp: ascii_def)

lemma script_in_tree: "in_tree (tempdir_of e) (script_path_of e)"
  using tempdir_nonempty [of e]
  unfolding script_path_of_def path_join_def in_tree_def
  by (auto simp: ascii_def prefix_def)

lemma tempdir_in_tree: "in_tree d d"
  by (simp add: in_tree_def)

section \<open>The paths through the handler\<close>

lemmas host_defs = makedirs_def write_script_def run_subprocess_def rmtree_def log_def

lemma run_code_workspace_steps:
  assumes "body_get body (ascii ''code'') = Inr (PyStr code)"
    and "length code \<le> 5000"
    and "makedirs_raises e = None" and "open_raises e = None" and "utf8_encodable code"
  shows "run_code e body w =
           invoke e (tempdir_of e)
             (w\<lparr>trace := trace w @ [Makedirs (tempdir_of e), OpenWrite (script_path_of e),
                                    Write (script_path_of e) code],
                fs := (fs w)(tempdir_of e \<mapsto> Dir, script_path_of e \<mapsto> File code)\<rparr>)"
  using assms by (simp add: run_code_def MAX_CODE_CHARS_def host_defs Let_def)

lemma invoke_completed:
  assumes "subprocess_run e (exec_cmd d) = Inr cp"
  shows "invoke e d w = (Inr (classify cp), rmtree e d (log (SubprocessRun (exec_cmd d)) w))"
  using assms by (simp add: invoke_def run_subprocess_def)

lemma invoke_not_found:
  assumes "subprocess_run e (exec_cmd d) = Inl (FileNotFoundError msg)"
  shows "invoke e d w =
           (Inr (jsonify [(ascii ''error'', ascii ''Required tool not found: '' @
                   (if py_in (ascii ''docker'') (str_lower e msg)
                    then ascii ''docker'' else ascii ''timeout''))] 500),
            rmtree e d (log (SubprocessRun (exec_cmd d)) w))"
  using assms by (simp add: invoke_def run_subprocess_def)

lemma trace_rmtree: "trace (rmtree e d w) = trace w @ [Rmtree d]"
  by (simp add: rmtree_def log_def Let_def)

lemma fs_rmtree:
  "\<not> rmtree_fails e \<Longrightarrow> in_tree d p \<Longrightarrow> fs (rmtree e d w) p = None"
  by (simp add: rmtree_def log_def Let_def)

lemma fs_rmtree_frame:
  "\<not> in_tree d p \<Longrightarrow> fs (rmtree e d w) p = fs w p"
  by (simp add: rmtree_def log_def Let_def)

text \<open>
  Whenever the handler returns a response it has either made no call on the host, or
  made the full sequence that ends with the removal of the workspace.
\<close>

lemma returned_run_trace:
  assumes "fst (run_code e body w) = Inr r"
  shows "trace (snd (run_code e body w)) = trace w \<or>
         (\<exists>code. trace (snd (run_code e body w)) =
            trace w @ [Makedirs (tempdir_of e), OpenWrite (script_path_of e),
                       Write (script_path_of e) code, SubprocessRun (exec_cmd (tempdir_of e)),
                       Rmtree (tempdir_of e)])"
  using assms
  by (auto simp: run_code_def host_defs invoke_def Let_def
      split: option.splits sum.splits exn.splits pyobj.splits if_splits)

text \<open>
  When the script is written and the command completes, or its spawn raises
  \<open>FileNotFoundError\<close>, the handler returns, having created the directory once and
  removed it once.
\<close>

lemma listed_paths_remove_workspace_once:
  assumes "body_get body (ascii ''code'') = Inr (PyStr code)"
    and "length code \<le> 5000"
    and "makedirs_raises e = None" and "open_raises e = None" and "utf8_encodable code"
    and "(\<exists>cp. subprocess_run e (exec_cmd (tempdir_of e)) = Inr cp) \<or>
         (\<exists>msg. subprocess_run e (exec_cmd (tempdir_of e)) = Inl (FileNotFoundError msg))"
  shows "(\<exists>r. fst (run_code e body w) = Inr r) \<and>
         (\<exists>evs. trace (snd (run_code e body w)) = trace w @ evs \<and>
            evs = [Makedirs (tempdir_of e), OpenWrite (script_path_of e),
                   Write (script_path_of e) code, SubprocessRun (exec_cmd (tempdir_of e)),
                   Rmtree (tempdir_of e)] \<and>
            count_list evs (Makedirs (tempdir_of e)) = 1 \<and>
            count_list evs (Rmtree (tempdir_of e)) = 1) \<and>
         (\<not> rmtree_fails e \<longrightarrow>
            fs (snd (run_code e body w)) (tempdir_of e) = None \<and>
            fs (snd (run_code e body w)) (script_path_of e) = None)"
proof -
  note steps = run_code_workspace_steps [OF assms(1-5), of w]
  from assms(6) show ?thesis
  proof
    assume "\<exists>cp. subprocess_run e (exec_cmd (tempdir_of e)) = Inr cp"
    then obtain cp where "subprocess_run e (exec_cmd (tempdir_of e)) = Inr cp" ..
    then show ?thesis
      by (simp add: steps invoke_completed trace_rmtree fs_rmtree script_in_tree
          tempdir_in_tree log_def)
  next
    assume "\<exists>msg. subprocess_run e (exec_cmd (tempdir_of e)) = Inl (FileNotFoundError msg)"
    then obtain msg where "subprocess_run e (exec_cmd (tempdir_of e)) = Inl (FileNotFoundError msg)" ..
    then show ?thesis
      by (simp add: steps invoke_not_found trace_rmtree fs_rmtree script_in_tree
          tempdir_in_tree log_def)
  qed
qed

text \<open>
  The other ways out of the handler. Text with a surrogate code point makes \<open>f.write\<close>
  raise after the directory and the empty script exist, and \<open>subprocess.run\<close> can raise
  something other than \<open>FileNotFoundError\<close>. No statement catches either, and the
  handler makes no further call: the directory stays.
\<close>

lemma script_path_neq_tempdir: "script_path_of e \<noteq> tempdir_of e"
  unfolding script_path_of_def path_join_def by (auto simp: ascii_def)

lemma unencodable_code_raises:
  assumes "body_get body (ascii ''code'') = Inr (PyStr code)"
    and "length code \<le> 5000"
    and "makedirs_raises e = None" and "open_raises e = None" and "\<not> utf8_encodable code"
  shows "run_code e body w =
           (Inl UnicodeEncodeError,
            w\<lparr>trace := trace w @ [Makedirs (tempdir_of e), OpenWrite (script_path_of e),
                                   Write (script_path_of e) code],
               fs := (fs w)(tempdir_of e \<mapsto> Dir, script_path_of e \<mapsto> File [])\<rparr>)"
  using assms by (simp add: run_code_def MAX_CODE_CHARS_def host_defs Let_def)

lemma uncaught_spawn_error_raises:
  assumes "body_get body (ascii ''code'') = Inr (PyStr code)"
    and "length code \<le> 5000"
    and "makedirs_raises e = None" and "open_raises e = None" and "utf8_encodable code"
    and "subprocess_run e (exec_cmd (tempdir_of e)) = Inl x"
    and "\<forall>msg. x \<noteq> FileNotFoundError msg"
  shows "run_code e body w =
           (Inl x,
            w\<lparr>trace := trace w @ [Makedirs (tempdir_of e), OpenWrite (script_path_of e),
                                   Write (script_path_of e) code,
                                   SubprocessRun (exec_cmd (tempdir_of e))],
               fs := (fs w)(tempdir_of e \<mapsto> Dir, script_path_of e \<mapsto> File code)\<rparr>)"
  using assms(6,7)
  by (cases x)
     (simp_all add: run_code_workspace_steps [OF assms(1-5)] invoke_def run_subprocess_def log_def)

section \<open>The responses on each path\<close>

lemma sample_host_simps [simp]:
  "makedirs_raises (sample_host r) = None" "open_raises (sample_host r) = None"
  "subprocess_run (sample_host r) cmd = r" "rmtree_fails (sample_host r) = False"
  "gettempdir (sample_host r) = ascii ''/tmp''"
  by (simp_all add: sample_host_def)

lemma body_get_submission [simp]: "body_get (submission c) (ascii ''code'') = Inr (PyStr c)"
  by (simp add: submission_def body_get_def)

lemma utf8_encodable_print [simp]: "utf8_encodable (ascii ''print(1)'')"
  by (simp add: utf8_encodable_def ascii_def)

lemma length_print [simp]: "length (ascii ''print(1)'') = 8"
  by (simp add: ascii_def)

lemma timeout_message:
  "ascii ''Execution timed out after '' @ str_int TIMEOUT_SECONDS @ ascii '' seconds'' =
   ascii ''Execution timed out after 10 seconds''"
  by (simp add: str_int_TIMEOUT_SECONDS ascii_def)

lemma classify_timeout:
  "returncode cp = 124 \<Longrightarrow>
   classify cp = \<lparr>json = [(ascii ''error'', ascii ''Execution timed out after 10 seconds'')],
                  status = 400\<rparr>"
  by (simp add: classify_def jsonify_def timeout_message)

lemma classify_program_error:
  "returncode cp \<noteq> 124 \<Longrightarrow> returncode cp \<noteq> 0 \<Longrightarrow>
   classify cp =
     \<lparr>json = [(ascii ''output'', strip (stdout cp)),
              (ascii ''error'',
               if strip (stderr cp) \<noteq> [] then strip (stderr cp)
               else ascii ''container exited with code '' @ str_int (returncode cp))],
      status = 400\<rparr>"
  by (simp add: classify_def jsonify_def)

lemma classify_success:
  "returncode cp = 0 \<Longrightarrow>
   classify cp = \<lparr>json = [(ascii ''output'', rstrip_newline (stdout cp))], status = 200\<rparr>"
  by (simp add: classify_def jsonify_def)

lemma fst_run_code_completed:
  assumes "body_get body (ascii ''code'') = Inr (PyStr code)"
    and "length code \<le> 5000"
    and "makedirs_raises e = None" and "open_raises e = None" and "utf8_encodable code"
    and "subprocess_run e (exec_cmd (tempdir_of e)) = Inr cp"
  shows "fst (run_code e body w) = Inr (classify cp)"
  by (simp add: run_code_workspace_steps [OF assms(1-5)] invoke_completed [OF assms(6)])

lemma status_classify: "status (classify cp) = 200 \<or> status (classify cp) = 400"
  by (simp add: classify_def jsonify_def)

lemma run_code_not_found:
  assumes "body_get body (ascii ''code'') = Inr (PyStr code)"
    and "length code \<le> 5000"
    and "makedirs_raises e = None" and "open_raises e = None" and "utf8_encodable code"
    and "subprocess_run e (exec_cmd (tempdir_of e)) = Inl (FileNotFoundError msg)"
  shows "run_code e body w =
           (Inr (jsonify [(ascii ''error'', ascii ''Required tool not found: '' @
                   (if py_in (ascii ''docker'') (str_lower e msg)
                    then ascii ''docker'' else ascii ''timeout''))] 500),
            rmtree e (tempdir_of e)
              (log (SubprocessRun (exec_cmd (tempdir_of e)))
                (w\<lparr>trace := trace w @ [Makedirs (tempdir_of e), OpenWrite (script_path_of e),
                                       Write (script_path_of e) code],
                   fs := (fs w)(tempdir_of e \<mapsto> Dir, script_path_of e \<mapsto> File code)\<rparr>)))"
  by (simp add: run_code_workspace_steps [OF assms(1-5)] invoke_not_found [OF assms(6)])

lemma utf8_encodable_other [simp]: "utf8_encodable (ascii ''x = 2'')"
  by (simp add: utf8_encodable_def ascii_def)

lemma length_other [simp]: "length (ascii ''x = 2'') = 5"
  by (simp add: ascii_def)


text \<open>
  The response when the spawn raises \<open>FileNotFoundError\<close>: status 500, a status no
  classified run has, and a message chosen from the exception text.
\<close>

lemma spawn_file_not_found_response:
  assumes "body_get body (ascii ''code'') = Inr (PyStr code)"
    and "length code \<le> 5000"
    and "makedirs_raises e = None" and "open_raises e = None" and "utf8_encodable code"
    and "subprocess_run e (exec_cmd (tempdir_of e)) = Inl (FileNotFoundError msg)"
  shows "fst (run_code e body w) =
           Inr \<lparr>json = [(ascii ''error'', ascii ''Required tool not found: '' @
                          (if py_in (ascii ''docker'') (str_lower e msg)
                           then ascii ''docker'' else ascii ''timeout''))],
                status = 500\<rparr> \<and>
         (\<forall>cp. status (classify cp) \<noteq> 500) \<and>
         last (trace (snd (run_code e body w))) = Rmtree (tempdir_of e) \<and>
         (\<not> rmtree_fails e \<longrightarrow>
            (\<forall>p. in_tree (tempdir_of e) p \<longrightarrow> fs (snd (run_code e body w)) p = None))"
proof -
  have "\<forall>cp. status (classify cp) \<noteq> 500"
  proof
    fix cp show "status (classify cp) \<noteq> 500" using status_classify [of cp] by auto
  qed
  then show ?thesis
    by (simp add: run_code_not_found [OF assms] jsonify_def trace_rmtree fs_rmtree)
qed

lemma tempdir_of_sample_host:
  "tempdir_of (sample_host r) = ascii ''/tmp/safeexec-0b5e2c1a-7d4f-4e0a-9c3b-1f2e3d4c5b6a''"
  by (simp add: tempdir_of_def sample_host_def path_join_def ascii_def suffix_def)

lemma script_path_of_sample_host:
  "script_path_of (sample_host r) =
     ascii ''/tmp/safeexec-0b5e2c1a-7d4f-4e0a-9c3b-1f2e3d4c5b6a/script.py''"
  by (simp add: script_path_of_def tempdir_of_sample_host)
     (simp add: path_join_def ascii_def suffix_def)

lemma trace_empty_world [simp]: "trace empty_world = []"
  by (simp add: empty_world_def)

lemma length_surrogate_code [simp]: "length surrogate_code = 1"
  by (simp add: surrogate_code_def)

lemma surrogate_code_not_encodable [simp]: "\<not> utf8_encodable surrogate_code"
  by (simp add: surrogate_code_def utf8_encodable_def)

lemma strip_docker_absent_stderr:
  "strip (stderr docker_absent) =
     ascii ''timeout: failed to run command '' @ [39] @ ascii ''docker'' @ [39] @
     ascii '': No such file or directory''"
  by (simp add: docker_absent_def strip_def rstrip_def lstrip_def isspace_def ascii_def)

section \<open>The claims\<close>

text \<open>
  Claim C1 fails on the code. The claim is that a created workspace is always removed
  before the handler is left. Two runs in which it is not: a submission holding a lone
  surrogate, where writing the script raises \<open>UnicodeEncodeError\<close>; and a command whose
  output cannot be decoded, where \<open>subprocess.run\<close> raises \<open>UnicodeDecodeError\<close>. In both
  the directory has been created, the handler is left by the exception, its calls on the
  host contain no removal, and the directory is still there.
\<close>

theorem uncaught_exception_leaves_workspace:
  "fst (run_code (sample_host (Inr \<lparr>returncode = 0, stdout = [], stderr = []\<rparr>))
         (submission surrogate_code) empty_world) = Inl UnicodeEncodeError \<and>
   trace (snd (run_code (sample_host (Inr \<lparr>returncode = 0, stdout = [], stderr = []\<rparr>))
         (submission surrogate_code) empty_world)) =
     [Makedirs (ascii ''/tmp/safeexec-0b5e2c1a-7d4f-4e0a-9c3b-1f2e3d4c5b6a''),
      OpenWrite (ascii ''/tmp/safeexec-0b5e2c1a-7d4f-4e0a-9c3b-1f2e3d4c5b6a/script.py''),
      Write (ascii ''/tmp/safeexec-0b5e2c1a-7d4f-4e0a-9c3b-1f2e3d4c5b6a/script.py'')
        surrogate_code] \<and>
   fs (snd (run_code (sample_host (Inr \<lparr>returncode = 0, stdout = [], stderr = []\<rparr>))
         (submission surrogate_code) empty_world))
      (ascii ''/tmp/safeexec-0b5e2c1a-7d4f-4e0a-9c3b-1f2e3d4c5b6a'') = Some Dir \<and>
   fst (run_code (sample_host (Inl UnicodeDecodeError))
         (submission (ascii ''print(1)'')) empty_world) = Inl UnicodeDecodeError \<and>
   trace (snd (run_code (sample_host (Inl UnicodeDecodeError))
         (submission (ascii ''print(1)'')) empty_world)) =
     [Makedirs (ascii ''/tmp/safeexec-0b5e2c1a-7d4f-4e0a-9c3b-1f2e3d4c5b6a''),
      OpenWrite (ascii ''/tmp/safeexec-0b5e2c1a-7d4f-4e0a-9c3b-1f2e3d4c5b6a/script.py''),
      Write (ascii ''/tmp/safeexec-0b5e2c1a-7d4f-4e0a-9c3b-1f2e3d4c5b6a/script.py'')
        (ascii ''print(1)''),
      SubprocessRun (exec_cmd (ascii ''/tmp/safeexec-0b5e2c1a-7d4f-4e0a-9c3b-1f2e3d4c5b6a''))] \<and>
   fs (snd (run_code (sample_host (Inl UnicodeDecodeError))
         (submission (ascii ''print(1)'')) empty_world))
      (ascii ''/tmp/safeexec-0b5e2c1a-7d4f-4e0a-9c3b-1f2e3d4c5b6a'') = Some Dir"
proof -
  let ?ok = "sample_host (Inr \<lparr>returncode = 0, stdout = [], stderr = []\<rparr>)"
  let ?bad = "sample_host (Inl UnicodeDecodeError)"
  let ?T = "ascii ''/tmp/safeexec-0b5e2c1a-7d4f-4e0a-9c3b-1f2e3d4c5b6a''"
  let ?S = "ascii ''/tmp/safeexec-0b5e2c1a-7d4f-4e0a-9c3b-1f2e3d4c5b6a/script.py''"
  have ne: "?S \<noteq> ?T"
    using script_path_neq_tempdir [of ?ok]
    by (simp add: tempdir_of_sample_host script_path_of_sample_host)
  have a: "run_code ?ok (submission surrogate_code) empty_world =
             (Inl UnicodeEncodeError,
              empty_world\<lparr>trace := [Makedirs ?T, OpenWrite ?S, Write ?S surrogate_code],
                           fs := (fs empty_world)(?T \<mapsto> Dir, ?S \<mapsto> File [])\<rparr>)"
    using unencodable_code_raises [of "submission surrogate_code" surrogate_code ?ok empty_world]
    by (simp add: tempdir_of_sample_host script_path_of_sample_host)
  have b: "run_code ?bad (submission (ascii ''print(1)'')) empty_world =
             (Inl UnicodeDecodeError,
              empty_world\<lparr>trace := [Makedirs ?T, OpenWrite ?S, Write ?S (ascii ''print(1)''),
                                     SubprocessRun (exec_cmd ?T)],
                           fs := (fs empty_world)(?T \<mapsto> Dir, ?S \<mapsto> File (ascii ''print(1)''))\<rparr>)"
    using uncaught_spawn_error_raises [of "submission (ascii ''print(1)'')" "ascii ''print(1)''"
        ?bad UnicodeDecodeError empty_world]
    by (simp add: tempdir_of_sample_host script_path_of_sample_host)
  show ?thesis
    using ne by (simp add: a b)
qed

text \<open>
  Claim C2 as stated fails. A command that completes at once with status 124 and
  stdout "done", which is all the handler sees of a guest that exits with 124 by itself,
  is answered with the timeout response and not with the program-error response for
  status 124.
\<close>

theorem guest_exit_124_reported_as_timeout:
  "fst (run_code (sample_host (Inr \<lparr>returncode = 124, stdout = ascii ''done'', stderr = []\<rparr>))
         (submission (ascii ''print(1)'')) empty_world) =
     Inr \<lparr>json = [(ascii ''error'', ascii ''Execution timed out after 10 seconds'')],
          status = 400\<rparr> \<and>
   fst (run_code (sample_host (Inr \<lparr>returncode = 124, stdout = ascii ''done'', stderr = []\<rparr>))
         (submission (ascii ''print(1)'')) empty_world) \<noteq>
     Inr \<lparr>json = [(ascii ''output'', ascii ''done''),
                  (ascii ''error'', ascii ''container exited with code 124'')],
          status = 400\<rparr>"
  by (simp add: fst_run_code_completed classify_timeout)

text \<open>
  Claim C2, as amended. The handler answers with the timeout response exactly when the
  completed process reports status 124: the status is its only signal, so a status 124
  that comes from the guest itself is answered as a timeout too.
\<close>

theorem timeout_iff_status_124:
  "classify cp = \<lparr>json = [(ascii ''error'', ascii ''Execution timed out after 10 seconds'')],
                  status = 400\<rparr>
   \<longleftrightarrow> returncode cp = 124"
proof
  assume t: "classify cp = \<lparr>json = [(ascii ''error'', ascii ''Execution timed out after 10 seconds'')],
                  status = 400\<rparr>"
  show "returncode cp = 124"
  proof (rule ccontr)
    assume n: "returncode cp \<noteq> 124"
    show False
    proof (cases "returncode cp = 0")
      case True
      with t show False by (simp add: classify_success)
    next
      case False
      with n t show False by (simp add: classify_program_error)
    qed
  qed
next
  assume "returncode cp = 124"
  then show "classify cp = \<lparr>json = [(ascii ''error'', ascii ''Execution timed out after 10 seconds'')],
                  status = 400\<rparr>"
    by (rule classify_timeout)
qed

text \<open>
  The theorem at a concrete host and submission.
\<close>

theorem timeout_iff_status_124_witness:
  "classify \<lparr>returncode = 124, stdout = ascii ''done'', stderr = []\<rparr> =
     \<lparr>json = [(ascii ''error'', ascii ''Execution timed out after 10 seconds'')], status = 400\<rparr> \<and>
   classify \<lparr>returncode = 3, stdout = ascii ''done'', stderr = []\<rparr> \<noteq>
     \<lparr>json = [(ascii ''error'', ascii ''Execution timed out after 10 seconds'')], status = 400\<rparr>"
  using timeout_iff_status_124 [of "\<lparr>returncode = 124, stdout = ascii ''done'', stderr = []\<rparr>"]
        timeout_iff_status_124 [of "\<lparr>returncode = 3, stdout = ascii ''done'', stderr = []\<rparr>"]
  by simp

text \<open>
  Claim C3 as stated fails. For the stdout "a" followed by two newlines the output is
  "a", while stripping exactly one trailing newline would give "a" followed by a
  newline.
\<close>

theorem two_trailing_newlines_both_stripped:
  "fst (run_code (sample_host (Inr \<lparr>returncode = 0, stdout = ascii ''a\<newline>\<newline>'', stderr = []\<rparr>))
         (submission (ascii ''print(1)'')) empty_world) =
     Inr \<lparr>json = [(ascii ''output'', ascii ''a'')], status = 200\<rparr> \<and>
   strip_one_newline (ascii ''a\<newline>\<newline>'') = ascii ''a\<newline>'' \<and>
   ascii ''a'' \<noteq> ascii ''a\<newline>''"
proof -
  have "fst (run_code (sample_host (Inr \<lparr>returncode = 0, stdout = ascii ''a\<newline>\<newline>'', stderr = []\<rparr>))
         (submission (ascii ''print(1)'')) empty_world) =
     Inr \<lparr>json = [(ascii ''output'', rstrip_newline (ascii ''a\<newline>\<newline>''))], status = 200\<rparr>"
    by (simp add: fst_run_code_completed classify_success)
  moreover have "rstrip_newline (ascii ''a\<newline>\<newline>'') = ascii ''a''"
    by (simp add: rstrip_newline_def rstrip_def ascii_def)
  moreover have "strip_one_newline (ascii ''a\<newline>\<newline>'') = ascii ''a\<newline>''"
    by (simp add: strip_one_newline_def ascii_def suffix_def)
  moreover have "ascii ''a'' \<noteq> ascii ''a\<newline>''"
    by (simp add: ascii_def)
  ultimately show ?thesis by simp
qed

text \<open>
  Claim C3, as amended. With exit status zero the response is \<open>{"output": o}\<close> with
  status 200, where \<open>o\<close> is the captured stdout without any of its trailing newlines:
  stdout is \<open>o\<close> followed by newlines only, and \<open>o\<close> does not end in a newline.
\<close>

theorem success_output_strips_all_trailing_newlines:
  assumes "body_get body (ascii ''code'') = Inr (PyStr code)"
    and "length code \<le> 5000"
    and "makedirs_raises e = None" and "open_raises e = None" and "utf8_encodable code"
    and "subprocess_run e (exec_cmd (tempdir_of e)) = Inr cp"
    and "returncode cp = 0"
  shows "fst (run_code e body w) =
           Inr \<lparr>json = [(ascii ''output'', rstrip_newline (stdout cp))], status = 200\<rparr> \<and>
         (\<exists>k. stdout cp = rstrip_newline (stdout cp) @ replicate k 10) \<and>
         \<not> suffix (ascii ''\<newline>'') (rstrip_newline (stdout cp))"
proof -
  have "\<not> suffix [10] (rstrip_newline (stdout cp))"
  proof
    assume "suffix [10] (rstrip_newline (stdout cp))"
    then obtain ys where ys: "rstrip_newline (stdout cp) = ys @ [10]"
      by (auto simp: suffix_def)
    then have "rstrip_newline (stdout cp) \<noteq> []" by simp
    from rstrip_newline_last [OF this] ys show False by simp
  qed
  then show ?thesis
    using rstrip_newline_decomposition [of "stdout cp"]
    by (simp add: fst_run_code_completed [OF assms(1-6)] classify_success [OF assms(7)]
        ascii_newline)
qed

text \<open>
  The theorem at a concrete host and submission.
\<close>

theorem success_output_strips_all_trailing_newlines_witness:
  "fst (run_code (sample_host (Inr \<lparr>returncode = 0, stdout = ascii ''a\<newline>\<newline>'', stderr = []\<rparr>))
         (submission (ascii ''print(1)'')) empty_world) =
     Inr \<lparr>json = [(ascii ''output'',
                   rstrip_newline (ascii ''a\<newline>\<newline>''))], status = 200\<rparr> \<and>
   (\<exists>k. ascii ''a\<newline>\<newline>'' = rstrip_newline (ascii ''a\<newline>\<newline>'') @ replicate k 10) \<and>
   \<not> suffix (ascii ''\<newline>'') (rstrip_newline (ascii ''a\<newline>\<newline>''))"
  using success_output_strips_all_trailing_newlines [of "submission (ascii ''print(1)'')" "ascii ''print(1)''"
      "sample_host (Inr \<lparr>returncode = 0, stdout = ascii ''a\<newline>\<newline>'', stderr = []\<rparr>)"
      "\<lparr>returncode = 0, stdout = ascii ''a\<newline>\<newline>'', stderr = []\<rparr>" empty_world]
  by simp

text \<open>
  Claim C4. A string of more than 5000 characters is answered with status 400 and the
  message "code too long (max 5000)", and the world is unchanged: no call on the host
  was made and the file system is as before.
\<close>

theorem oversized_code_rejected_before_workspace:
  assumes "body_get body (ascii ''code'') = Inr (PyStr code)"
    and "length code > 5000"
  shows "run_code e body w =
           (Inr \<lparr>json = [(ascii ''error'', ascii ''code too long (max 5000)'')], status = 400\<rparr>, w)"
  using assms
  by (simp add: run_code_def MAX_CODE_CHARS_def jsonify_def str_int_MAX_CODE_CHARS [unfolded MAX_CODE_CHARS_def] ascii_def)

text \<open>
  The theorem at a concrete host and submission.
\<close>

theorem oversized_code_rejected_before_workspace_witness:
  "run_code (sample_host (Inl OSError)) (submission (replicate 5001 120)) empty_world =
     (Inr \<lparr>json = [(ascii ''error'', ascii ''code too long (max 5000)'')], status = 400\<rparr>,
      empty_world)"
  using oversized_code_rejected_before_workspace [of "submission (replicate 5001 120)" "replicate 5001 120" "sample_host (Inl OSError)" empty_world]
  by simp

text \<open>
  Claim C5. With an exit status that is neither zero nor 124 the response has status 400,
  its output is stdout stripped, and its error is stderr stripped when that is not empty
  and otherwise "container exited with code" followed by the status. Stripping removes
  whitespace at both ends and nothing else: the string is whitespace, the stripped
  string, whitespace; and a non-empty stripped string neither starts nor ends with
  whitespace.
\<close>

theorem program_error_response:
  assumes "body_get body (ascii ''code'') = Inr (PyStr code)"
    and "length code \<le> 5000"
    and "makedirs_raises e = None" and "open_raises e = None" and "utf8_encodable code"
    and "subprocess_run e (exec_cmd (tempdir_of e)) = Inr cp"
    and "returncode cp \<noteq> 0" and "returncode cp \<noteq> 124"
  shows "fst (run_code e body w) =
           Inr \<lparr>json = [(ascii ''output'', strip (stdout cp)),
                        (ascii ''error'',
                         if strip (stderr cp) \<noteq> [] then strip (stderr cp)
                         else ascii ''container exited with code '' @ str_int (returncode cp))],
                status = 400\<rparr> \<and>
         (\<forall>s \<in> {stdout cp, stderr cp}.
            (\<exists>l r. s = l @ strip s @ r \<and> list_all isspace l \<and> list_all isspace r) \<and>
            (strip s \<noteq> [] \<longrightarrow> \<not> isspace (hd (strip s)) \<and> \<not> isspace (last (strip s))))"
  using strip_decomposition [of "stdout cp"] strip_decomposition [of "stderr cp"]
    strip_ends [of "stdout cp"] strip_ends [of "stderr cp"]
  by (simp add: fst_run_code_completed [OF assms(1-6)] classify_program_error [OF assms(8,7)])

text \<open>
  The theorem at a concrete host and submission.
\<close>

theorem program_error_response_witness:
  "fst (run_code (sample_host (Inr \<lparr>returncode = 1, stdout = ascii '' partial \<newline>'',
                                     stderr = ascii '' \<newline>''\<rparr>))
         (submission (ascii ''print(1)'')) empty_world) =
     Inr \<lparr>json = [(ascii ''output'', ascii ''partial''),
                  (ascii ''error'', ascii ''container exited with code 1'')],
          status = 400\<rparr>"
  using program_error_response [of "submission (ascii ''print(1)'')" "ascii ''print(1)''"
      "sample_host (Inr \<lparr>returncode = 1, stdout = ascii '' partial \<newline>'', stderr = ascii '' \<newline>''\<rparr>)"
      "\<lparr>returncode = 1, stdout = ascii '' partial \<newline>'', stderr = ascii '' \<newline>''\<rparr>" empty_world,
      simplified]
  by (simp add: strip_def rstrip_def lstrip_def isspace_def str_int_def digits.simps ascii_def)

text \<open>
  Claim C6. With exit status 124 the response is exactly
  \<open>{"error": "Execution timed out after 10 seconds"}\<close> with status 400, whatever stdout
  and stderr hold: it has no output field, and its message ends in
  "timed out after N seconds" for the configured N.
\<close>

theorem timeout_response_carries_no_output:
  assumes "body_get body (ascii ''code'') = Inr (PyStr code)"
    and "length code \<le> 5000"
    and "makedirs_raises e = None" and "open_raises e = None" and "utf8_encodable code"
    and "subprocess_run e (exec_cmd (tempdir_of e)) = Inr cp"
    and "returncode cp = 124"
  shows "fst (run_code e body w) =
           Inr \<lparr>json = [(ascii ''error'', ascii ''Execution timed out after 10 seconds'')],
                status = 400\<rparr> \<and>
         suffix (ascii ''timed out after '' @ str_int TIMEOUT_SECONDS @ ascii '' seconds'')
           (ascii ''Execution timed out after 10 seconds'')"
proof -
  have "ascii ''Execution timed out after 10 seconds'' =
        ascii ''Execution '' @ ascii ''timed out after '' @ str_int TIMEOUT_SECONDS @ ascii '' seconds''"
    by (simp add: str_int_TIMEOUT_SECONDS ascii_def)
  then have "suffix (ascii ''timed out after '' @ str_int TIMEOUT_SECONDS @ ascii '' seconds'')
           (ascii ''Execution timed out after 10 seconds'')"
    by (simp only: suffixI)
  then show ?thesis
    by (simp add: fst_run_code_completed [OF assms(1-6)] classify_timeout [OF assms(7)])
qed

text \<open>
  The theorem at a concrete host and submission.
\<close>

theorem timeout_response_carries_no_output_witness:
  "fst (run_code (sample_host (Inr \<lparr>returncode = 124, stdout = ascii ''tick'',
                                     stderr = ascii ''warn''\<rparr>))
         (submission (ascii ''print(1)'')) empty_world) =
     Inr \<lparr>json = [(ascii ''error'', ascii ''Execution timed out after 10 seconds'')],
          status = 400\<rparr>"
  using timeout_response_carries_no_output [of "submission (ascii ''print(1)'')" "ascii ''print(1)''"
      "sample_host (Inr \<lparr>returncode = 124, stdout = ascii ''tick'', stderr = ascii ''warn''\<rparr>)"
      "\<lparr>returncode = 124, stdout = ascii ''tick'', stderr = ascii ''warn''\<rparr>" empty_world]
  by simp

text \<open>
  Claim C7 fails on the code. On a host without \<open>docker\<close> the spawned program is still
  \<open>timeout\<close>, so no \<open>FileNotFoundError\<close> is raised: the handler receives status 127 and
  answers as for a failing guest, with status 400 and the stderr line as the error, not
  with the status 500 answer that names the missing tool.
\<close>

theorem absent_docker_answered_as_program_error:
  "fst (run_code (sample_host (Inr docker_absent)) (submission (ascii ''print(1)'')) empty_world) =
     Inr \<lparr>json = [(ascii ''output'', []),
                  (ascii ''error'',
                   ascii ''timeout: failed to run command '' @ [39] @ ascii ''docker'' @ [39] @
                   ascii '': No such file or directory'')],
          status = 400\<rparr> \<and>
   status \<lparr>json = [(ascii ''output'', []),
                  (ascii ''error'',
                   ascii ''timeout: failed to run command '' @ [39] @ ascii ''docker'' @ [39] @
                   ascii '': No such file or directory'')],
          status = 400\<rparr> \<noteq> 500"
proof -
  have rc: "returncode docker_absent = 127"
    by (simp add: docker_absent_def)
  have out: "strip (stdout docker_absent) = []"
    by (simp add: docker_absent_def strip_def rstrip_def lstrip_def)
  have err: "strip (stderr docker_absent) \<noteq> []"
    by (simp add: strip_docker_absent_stderr ascii_def)
  have "fst (run_code (sample_host (Inr docker_absent)) (submission (ascii ''print(1)''))
          empty_world) = Inr (classify docker_absent)"
    by (simp add: fst_run_code_completed)
  moreover have "classify docker_absent =
     \<lparr>json = [(ascii ''output'', strip (stdout docker_absent)),
              (ascii ''error'', strip (stderr docker_absent))], status = 400\<rparr>"
    using err by (simp add: classify_program_error [of docker_absent] rc)
  ultimately show ?thesis
    by (simp add: out strip_docker_absent_stderr)
qed

text \<open>
  Claim C8. When the value under "code" is not a string (a missing key reads as
  \<open>None\<close>) the response is \<open>{"error": "code must be a string"}\<close> with status 400, and
  the world is unchanged: no directory, no file, no spawn.
\<close>

theorem non_string_code_rejected_before_workspace:
  assumes "body_get body (ascii ''code'') = Inr v"
    and "\<forall>s. v \<noteq> PyStr s"
  shows "run_code e body w =
           (Inr \<lparr>json = [(ascii ''error'', ascii ''code must be a string'')], status = 400\<rparr>, w)"
  using assms by (cases v) (simp_all add: run_code_def jsonify_def)

text \<open>
  The theorem at a concrete host and submission.
\<close>

theorem non_string_code_rejected_before_workspace_witness:
  "run_code (sample_host (Inl OSError)) (PyDict [(ascii ''code'', PyInt 7)]) empty_world =
     (Inr \<lparr>json = [(ascii ''error'', ascii ''code must be a string'')], status = 400\<rparr>,
      empty_world)"
  using non_string_code_rejected_before_workspace [of "PyDict [(ascii ''code'', PyInt 7)]" "PyInt 7" "sample_host (Inl OSError)" empty_world]
  by (simp add: body_get_def)

text \<open>
  Claim C9. Two runs whose commands complete with the same exit status, the same stdout
  and the same stderr return the same response, whatever the two submissions, hosts and
  starting worlds are.
\<close>

theorem classification_deterministic:
  assumes "body_get body1 (ascii ''code'') = Inr (PyStr code1)"
    and "length code1 \<le> 5000"
    and "makedirs_raises e1 = None" and "open_raises e1 = None" and "utf8_encodable code1"
    and "subprocess_run e1 (exec_cmd (tempdir_of e1)) = Inr cp1"
    and "body_get body2 (ascii ''code'') = Inr (PyStr code2)"
    and "length code2 \<le> 5000"
    and "makedirs_raises e2 = None" and "open_raises e2 = None" and "utf8_encodable code2"
    and "subprocess_run e2 (exec_cmd (tempdir_of e2)) = Inr cp2"
    and "returncode cp1 = returncode cp2"
    and "stdout cp1 = stdout cp2"
    and "stderr cp1 = stderr cp2"
  shows "fst (run_code e1 body1 w1) = fst (run_code e2 body2 w2)"
proof -
  have "cp1 = cp2" using assms(13-15) by simp
  then show ?thesis
    by (simp add: fst_run_code_completed [OF assms(1-6)] fst_run_code_completed [OF assms(7-12)])
qed

text \<open>
  The theorem at a concrete host and submission.
\<close>

theorem classification_deterministic_witness:
  "fst (run_code (sample_host (Inr \<lparr>returncode = 2, stdout = ascii ''out'', stderr = ascii ''err''\<rparr>))
         (submission (ascii ''print(1)'')) empty_world) =
   fst (run_code ((sample_host (Inr \<lparr>returncode = 2, stdout = ascii ''out'', stderr = ascii ''err''\<rparr>))
                    \<lparr>uuid4 := ascii ''another-run'', gettempdir := ascii ''/var/tmp''\<rparr>)
         (submission (ascii ''x = 2''))
         (empty_world\<lparr>trace := [Rmtree (ascii ''/tmp/old'')]\<rparr>))"
  using classification_deterministic [of "submission (ascii ''print(1)'')" "ascii ''print(1)''"
      "sample_host (Inr \<lparr>returncode = 2, stdout = ascii ''out'', stderr = ascii ''err''\<rparr>)"
      "\<lparr>returncode = 2, stdout = ascii ''out'', stderr = ascii ''err''\<rparr>"
      "submission (ascii ''x = 2'')" "ascii ''x = 2''"
      "(sample_host (Inr \<lparr>returncode = 2, stdout = ascii ''out'', stderr = ascii ''err''\<rparr>))
                    \<lparr>uuid4 := ascii ''another-run'', gettempdir := ascii ''/var/tmp''\<rparr>"
      "\<lparr>returncode = 2, stdout = ascii ''out'', stderr = ascii ''err''\<rparr>"
      empty_world "empty_world\<lparr>trace := [Rmtree (ascii ''/tmp/old'')]\<rparr>"]
  by simp



end
